theory Spec2Isabelle
  imports Main "HOL-Library.Sublist"
begin

section \<open>Vibello: the upload page's job orchestration\<close>

text \<open>
  A shallow embedding of \<^verbatim>\<open>frontend/src/pages/UploadPage.jsx\<close> (the version with render
  polling) and of \<^verbatim>\<open>frontend/src/lib/api.js\<close>.  The React component is modelled as a
  record of its \<^verbatim>\<open>useState\<close> cells; everything the handlers touch outside of React
  state (the \<^verbatim>\<open>pollRef\<close> ref, the browser's interval timers, requests in flight, the
  object URLs handed out by \<^verbatim>\<open>URL.createObjectURL\<close>) is an explicit field of the
  surrounding world.  Each handler invocation and each asynchronous completion is one event;
  the component re-renders between events, so a handler reads the state of the latest render.
  The health ping and its \<^verbatim>\<open>apiOnline\<close> flag, which no handler reads, are left out.
\<close>

subsection \<open>JavaScript values\<close>

text \<open>Decimal rendering of a number inside a template literal.\<close>

definition digit_char :: "nat \<Rightarrow> char" where
  "digit_char d = ''0123456789'' ! d"

fun show_nat :: "nat \<Rightarrow> string" where
  "show_nat n = (if n < 10 then [digit_char n] else show_nat (n div 10) @ [digit_char (n mod 10)])"

declare show_nat.simps [simp del]

text \<open>Truthiness of an optional string: \<^verbatim>\<open>null\<close>, \<^verbatim>\<open>undefined\<close> and \<^verbatim>\<open>''\<close> are falsy.\<close>

definition truthy :: "string option \<Rightarrow> bool" where
  "truthy v = (case v of None \<Rightarrow> False | Some s \<Rightarrow> s \<noteq> [])"

text \<open>\<^verbatim>\<open>a || b\<close> on an optional string with a string default.\<close>

definition js_or :: "string option \<Rightarrow> string \<Rightarrow> string" where
  "js_or v d = (case v of None \<Rightarrow> d | Some s \<Rightarrow> if s \<noteq> [] then s else d)"

text \<open>A parsed JSON value.  A number is given by what JavaScript observes of it here: whether
  it is truthy (neither 0 nor NaN) and the text that \<^verbatim>\<open>String(n)\<close> gives for it.\<close>

datatype json =
    JNull
  | JBool bool
  | JNum bool string
  | JStr string
  | JArr "json list"
  | JObj "(string \<times> json) list"

text \<open>Truthiness of a JSON value: arrays and objects are truthy, also when empty.\<close>

fun js_truthy :: "json \<Rightarrow> bool" where
  "js_truthy JNull = False"
| "js_truthy (JBool b) = b"
| "js_truthy (JNum t s) = t"
| "js_truthy (JStr s) = (s \<noteq> [])"
| "js_truthy (JArr xs) = True"
| "js_truthy (JObj kvs) = True"

fun join_comma :: "string list \<Rightarrow> string" where
  "join_comma [] = []"
| "join_comma [x] = x"
| "join_comma (x # y # zs) = x @ '','' @ join_comma (y # zs)"

text \<open>The string conversion that \<^verbatim>\<open>new Error(message)\<close> applies to its argument.  An array
  is its elements joined by commas, with \<^verbatim>\<open>null\<close> elements rendered as nothing; an object
  is \<^verbatim>\<open>[object Object]\<close>.\<close>

fun js_string :: "json \<Rightarrow> string" where
  "js_string JNull = ''null''"
| "js_string (JBool b) = (if b then ''true'' else ''false'')"
| "js_string (JNum t s) = s"
| "js_string (JStr s) = s"
| "js_string (JArr xs) = join_comma (map (\<lambda>x. if x = JNull then [] else js_string x) xs)"
| "js_string (JObj kvs) = ''[object Object]''"

text \<open>\<^verbatim>\<open>API_URL = import.meta.env.VITE_API_URL || 'http://localhost:8000'\<close>\<close>

definition API_URL :: "string option \<Rightarrow> string" where
  "API_URL env = js_or env ''http://localhost:8000''"

subsection \<open>Data\<close>

text \<open>The metadata of a browser \<^verbatim>\<open>File\<close> that the page reads.\<close>

record jsfile =
  name :: string
  size' :: nat
  lastModified :: nat

text \<open>An entry of \<^verbatim>\<open>files\<close>: \<^verbatim>\<open>{file, previewUrl, id}\<close>.  An object URL is modelled by
  the serial number of the \<^verbatim>\<open>createObjectURL\<close> call that made it.\<close>

record staged =
  file' :: jsfile
  previewUrl :: nat
  id' :: string

text \<open>\<^verbatim>\<open>xhr.response\<close> with \<^verbatim>\<open>responseType = 'json'\<close>: an object whose fields may be
  missing (\<open>None\<close> for the whole body is a \<^verbatim>\<open>null\<close> response).  The \<^verbatim>\<open>detail\<close> field can
  hold any JSON value; a body that is not an object has no \<^verbatim>\<open>detail\<close> and no \<^verbatim>\<open>job_id\<close>,
  like an object without fields.\<close>

record upload_body =
  job_id :: "string option"
  saved_count :: "nat option"
  skipped_count :: "nat option"
  detail :: "json option"

datatype xhr_outcome =
    XhrError
  | XhrLoad nat "upload_body option"

record render_start =
  render_id :: string
  r_status :: "string option"

text \<open>\<^verbatim>\<open>startRender\<close> either throws an \<^verbatim>\<open>Error\<close> with a message or returns the body.\<close>

datatype start_outcome =
    StartThrows string
  | StartOk render_start

record poll_body =
  status :: "string option"
  progress :: "int option"
  download_url :: "string option"
  error :: "string option"

text \<open>One tick's body of work up to the first state update: \<open>PollThrows\<close> stands for
  every way the \<^verbatim>\<open>try\<close> block fails before \<^verbatim>\<open>setRenderStatus\<close> is reached (the fetch
  rejects, the response is not ok, the body is not JSON, or the body is \<^verbatim>\<open>null\<close>).\<close>

datatype poll_outcome =
    PollThrows
  | PollOk poll_body

record ui =
  files :: "staged list"
  isUploading :: bool
  uploadPct :: int
  uploadError :: string
  job :: "upload_body option"
  renderId :: "string option"
  renderStatus :: "string option"
  renderPct :: int
  renderErr :: string
  downloadUrl :: string

text \<open>An interval registered with \<^verbatim>\<open>setInterval\<close>: its id, its period in milliseconds and
  the render id captured by its callback.\<close>

record timer =
  t_id :: nat
  t_ms :: nat
  t_rid :: string

datatype url_op = Create nat | Revoke nat

record world =
  ui :: ui
  mounted :: bool
  pollRef :: "nat option"
  timers :: "timer list"
  next_timer :: nat
  polls :: "(nat \<times> string) list"
  next_poll :: nat
  starts :: "(nat \<times> string) list"
  next_start :: nat
  uploads :: nat
  next_url :: nat
  url_log :: "url_op list"
  VITE_API_URL :: "string option"

definition init_ui :: ui where
  "init_ui = \<lparr>files = [], isUploading = False, uploadPct = 0, uploadError = [], job = None,
     renderId = None, renderStatus = None, renderPct = 0, renderErr = [], downloadUrl = []\<rparr>"

text \<open>The freshly mounted component.  Browser timer ids are positive.\<close>

definition init :: "string option \<Rightarrow> world" where
  "init env = \<lparr>ui = init_ui, mounted = True, pollRef = None, timers = [], next_timer = 1,
     polls = [], next_poll = 0, starts = [], next_start = 0, uploads = 0, next_url = 0,
     url_log = [], VITE_API_URL = env\<rparr>"

subsection \<open>The staging set\<close>

definition mk_id :: "jsfile \<Rightarrow> string" where
  "mk_id f = name f @ ''-'' @ show_nat (size' f) @ ''-'' @ show_nat (lastModified f)"

text \<open>\<^verbatim>\<open>accepted.map(...)\<close>: one \<^verbatim>\<open>createObjectURL\<close> call per accepted file, in order.\<close>

fun mapped :: "nat \<Rightarrow> jsfile list \<Rightarrow> staged list" where
  "mapped n [] = []"
| "mapped n (f # fs) = \<lparr>file' = f, previewUrl = n, id' = mk_id f\<rparr> # mapped (Suc n) fs"

definition revokeAll :: "staged list \<Rightarrow> url_op list" where
  "revokeAll fs = map (\<lambda>f. Revoke (previewUrl f)) fs"

text \<open>\<^verbatim>\<open>setFiles\<close> with a new array.  The effect of line 49,
  \<^verbatim>\<open>useEffect(() => () => files.forEach(f => URL.revokeObjectURL(f.previewUrl)), [files])\<close>,
  has \<^verbatim>\<open>files\<close> as its dependency: when the array is replaced, React runs the cleanup
  installed by the previous render, which revokes the URL of every entry of the previous
  array.\<close>

definition setFiles :: "staged list \<Rightarrow> world \<Rightarrow> world" where
  "setFiles new w = w\<lparr>ui := (ui w)\<lparr>files := new\<rparr>, url_log := url_log w @ revokeAll (files (ui w))\<rparr>"

definition onDrop :: "jsfile list \<Rightarrow> world \<Rightarrow> world" where
  "onDrop accepted w =
     (let m = mapped (next_url w) accepted;
          w1 = w\<lparr>next_url := next_url w + length accepted,
                 url_log := url_log w @ map (\<lambda>f. Create (previewUrl f)) m\<rparr>;
          w2 = setFiles (take 25 (files (ui w1) @ m)) w1
      in w2\<lparr>ui := (ui w2)\<lparr>job := None, renderId := None, renderStatus := None,
             downloadUrl := [], renderErr := [], uploadError := [],
             uploadPct := 0, renderPct := 0\<rparr>\<rparr>)"

definition removeFile :: "string \<Rightarrow> world \<Rightarrow> world" where
  "removeFile i w = setFiles (filter (\<lambda>f. id' f \<noteq> i) (files (ui w))) w"

definition clearAll :: "world \<Rightarrow> world" where
  "clearAll w =
     (let w1 = w\<lparr>url_log := url_log w @ revokeAll (files (ui w))\<rparr>;
          w2 = setFiles [] w1
      in w2\<lparr>ui := (ui w2)\<lparr>job := None, renderId := None, renderStatus := None,
             downloadUrl := [], uploadError := [], renderErr := [],
             uploadPct := 0, renderPct := 0\<rparr>\<rparr>)"

text \<open>The \<^verbatim>\<open>disabled\<close> attribute of the "Clear all" button; the button is rendered only
  while \<^verbatim>\<open>files.length > 0\<close>.\<close>

definition clear_enabled :: "ui \<Rightarrow> bool" where
  "clear_enabled u = (files u \<noteq> [] \<and>
     \<not> (isUploading u \<or> renderStatus u = Some ''processing'' \<or> renderStatus u = Some ''queued''))"

subsection \<open>Upload\<close>

text \<open>\<^verbatim>\<open>xhr.response?.detail\<close>: nothing for a \<^verbatim>\<open>null\<close> response or a missing field.\<close>

definition response_detail :: "upload_body option \<Rightarrow> json option" where
  "response_detail resp = (case resp of None \<Rightarrow> None | Some b \<Rightarrow> detail b)"

text \<open>\<^verbatim>\<open>xhr.response?.detail || `Upload failed (${xhr.status})`\<close>, as the string that
  \<^verbatim>\<open>new Error(message)\<close> makes of it.\<close>

definition failure_message :: "nat \<Rightarrow> upload_body option \<Rightarrow> string" where
  "failure_message st resp =
     (case response_detail resp of
        None \<Rightarrow> ''Upload failed ('' @ show_nat st @ '')''
      | Some v \<Rightarrow> if js_truthy v then js_string v else ''Upload failed ('' @ show_nat st @ '')'')"

text \<open>How the promise of \<^verbatim>\<open>uploadFiles\<close> settles: \<open>Inl\<close> is the message of the
  \<^verbatim>\<open>Error\<close> it rejects with, \<open>Inr\<close> the value it resolves with.\<close>

definition uploadFiles :: "xhr_outcome \<Rightarrow> string + upload_body option" where
  "uploadFiles x =
     (case x of
        XhrError \<Rightarrow> Inl ''Network error during upload.''
      | XhrLoad st resp \<Rightarrow>
          if 200 \<le> st \<and> st < 300 then Inr resp
          else Inl (failure_message st resp))"

definition handleUpload :: "world \<Rightarrow> world" where
  "handleUpload w =
     (if files (ui w) = [] \<or> isUploading (ui w) then w
      else w\<lparr>ui := (ui w)\<lparr>isUploading := True, uploadPct := 0, uploadError := [], job := None,
                renderId := None, renderStatus := None, downloadUrl := []\<rparr>,
             uploads := Suc (uploads w)\<rparr>)"

text \<open>\<^verbatim>\<open>pct => setUploadPct(pct)\<close>, called from \<^verbatim>\<open>xhr.upload.onprogress\<close>.\<close>

definition uploadProgress :: "int \<Rightarrow> world \<Rightarrow> world" where
  "uploadProgress pct w = (if uploads w = 0 then w else w\<lparr>ui := (ui w)\<lparr>uploadPct := pct\<rparr>\<rparr>)"

text \<open>The rest of \<^verbatim>\<open>handleUpload\<close> after \<^verbatim>\<open>await uploadFiles(...)\<close>.\<close>

definition uploadDone :: "xhr_outcome \<Rightarrow> world \<Rightarrow> world" where
  "uploadDone x w =
     (if uploads w = 0 then w
      else
        (let u = (case uploadFiles x of
                    Inr resp \<Rightarrow> (ui w)\<lparr>job := resp, uploadPct := 100\<rparr>
                  | Inl msg \<Rightarrow> (ui w)\<lparr>uploadError := (if msg \<noteq> [] then msg else ''Upload failed''),
                                      uploadPct := 0\<rparr>)
         in w\<lparr>ui := u\<lparr>isUploading := False\<rparr>, uploads := uploads w - 1\<rparr>))"

subsection \<open>Render and polling\<close>

definition clearInterval :: "nat option \<Rightarrow> timer list \<Rightarrow> timer list" where
  "clearInterval r ts = (case r of None \<Rightarrow> ts | Some t \<Rightarrow> filter (\<lambda>x. t_id x \<noteq> t) ts)"

text \<open>\<^verbatim>\<open>if (pollRef.current) clearInterval(pollRef.current)\<close>: the number 0 is falsy.\<close>

definition clear_if_set :: "nat option \<Rightarrow> timer list \<Rightarrow> timer list" where
  "clear_if_set r ts = (case r of None \<Rightarrow> ts | Some t \<Rightarrow> if t \<noteq> 0 then clearInterval r ts else ts)"

definition handleStartRender :: "world \<Rightarrow> world" where
  "handleStartRender w =
     (case job (ui w) of
        None \<Rightarrow> w
      | Some j \<Rightarrow>
          if \<not> truthy (job_id j) then w
          else if renderStatus (ui w) = Some ''processing'' \<or> renderStatus (ui w) = Some ''queued''
          then w
          else w\<lparr>ui := (ui w)\<lparr>renderErr := [], renderPct := 0\<rparr>,
                 starts := starts w @ [(next_start w, the (job_id j))],
                 next_start := Suc (next_start w)\<rparr>)"

text \<open>The rest of \<^verbatim>\<open>handleStartRender\<close> after \<^verbatim>\<open>await startRender(job.job_id)\<close>, for
  the call numbered \<open>k\<close>.\<close>

definition startRenderDone :: "nat \<Rightarrow> start_outcome \<Rightarrow> world \<Rightarrow> world" where
  "startRenderDone k x w =
     (case map_of (starts w) k of
        None \<Rightarrow> w
      | Some jid \<Rightarrow>
          (let w1 = w\<lparr>starts := filter (\<lambda>p. fst p \<noteq> k) (starts w)\<rparr>
           in case x of
                StartThrows msg \<Rightarrow>
                  w1\<lparr>ui := (ui w1)\<lparr>renderErr := (if msg \<noteq> [] then msg else ''Could not start render'')\<rparr>\<rparr>
              | StartOk r \<Rightarrow>
                  w1\<lparr>ui := (ui w1)\<lparr>renderId := Some (render_id r),
                                    renderStatus := Some (js_or (r_status r) ''queued'')\<rparr>,
                      timers := clear_if_set (pollRef w1) (timers w1)
                                @ [\<lparr>t_id = next_timer w1, t_ms = 500, t_rid = render_id r\<rparr>],
                      pollRef := Some (next_timer w1),
                      next_timer := Suc (next_timer w1)\<rparr>))"

text \<open>The interval \<open>t\<close> fires: its callback calls \<^verbatim>\<open>fetchRenderStatus(r.render_id)\<close>.\<close>

definition tick :: "nat \<Rightarrow> world \<Rightarrow> world" where
  "tick t w =
     (case find (\<lambda>x. t_id x = t) (timers w) of
        None \<Rightarrow> w
      | Some x \<Rightarrow> w\<lparr>polls := polls w @ [(next_poll w, t_rid x)], next_poll := Suc (next_poll w)\<rparr>)"

definition terminal :: "string option \<Rightarrow> bool" where
  "terminal s = (s = Some ''done'' \<or> s = Some ''error'')"

text \<open>The rest of the interval callback after \<^verbatim>\<open>await fetchRenderStatus(...)\<close>, for the
  request numbered \<open>k\<close>.\<close>

definition pollDone :: "nat \<Rightarrow> poll_outcome \<Rightarrow> world \<Rightarrow> world" where
  "pollDone k x w =
     (case map_of (polls w) k of
        None \<Rightarrow> w
      | Some rid \<Rightarrow>
          (let w1 = w\<lparr>polls := filter (\<lambda>p. fst p \<noteq> k) (polls w)\<rparr>
           in case x of
                PollThrows \<Rightarrow> w1
              | PollOk s \<Rightarrow>
                  (let u1 = (ui w1)\<lparr>renderStatus := status s,
                                     renderPct := (case progress s of None \<Rightarrow> 0 | Some p \<Rightarrow> p)\<rparr>;
                       u2 = (if truthy (download_url s)
                             then u1\<lparr>downloadUrl := API_URL (VITE_API_URL w1) @ the (download_url s)\<rparr>
                             else u1)
                   in if terminal (status s)
                      then w1\<lparr>ui := (if truthy (error s) then u2\<lparr>renderErr := the (error s)\<rparr> else u2),
                              timers := clearInterval (pollRef w1) (timers w1),
                              pollRef := None\<rparr>
                      else w1\<lparr>ui := u2\<rparr>)))"

text \<open>Unmounting runs the cleanups of lines 49 and 109.\<close>

definition unmount :: "world \<Rightarrow> world" where
  "unmount w = w\<lparr>mounted := False,
                 url_log := url_log w @ revokeAll (files (ui w)),
                 timers := clear_if_set (pollRef w) (timers w)\<rparr>"

subsection \<open>Events\<close>

datatype event =
    Drop "jsfile list"
  | RemoveFile string
  | ClearAll
  | HandleUpload
  | UploadProgress int
  | UploadDone xhr_outcome
  | HandleStartRender
  | StartRenderDone nat start_outcome
  | Tick nat
  | PollDone nat poll_outcome
  | Unmount

fun handle :: "event \<Rightarrow> world \<Rightarrow> world" where
  "handle (Drop accepted) w = onDrop accepted w"
| "handle (RemoveFile i) w = removeFile i w"
| "handle ClearAll w = clearAll w"
| "handle HandleUpload w = handleUpload w"
| "handle (UploadProgress pct) w = uploadProgress pct w"
| "handle (UploadDone x) w = uploadDone x w"
| "handle HandleStartRender w = handleStartRender w"
| "handle (StartRenderDone k x) w = startRenderDone k x w"
| "handle (Tick t) w = tick t w"
| "handle (PollDone k x) w = pollDone k x w"
| "handle Unmount w = unmount w"

text \<open>Events raised by the user through the rendered page.\<close>

fun user_event :: "event \<Rightarrow> bool" where
  "user_event (Drop _) = True"
| "user_event (RemoveFile _) = True"
| "user_event ClearAll = True"
| "user_event HandleUpload = True"
| "user_event HandleStartRender = True"
| "user_event Unmount = True"
| "user_event _ = False"

text \<open>After unmounting there is no page to raise user events, and React drops the state
  updates of asynchronous continuations; what they do to \<^verbatim>\<open>pollRef\<close> and to timers still
  happens.\<close>

definition step :: "event \<Rightarrow> world \<Rightarrow> world" where
  "step e w =
     (if mounted w then handle e w
      else if user_event e then w
      else (handle e w)\<lparr>ui := ui w\<rparr>)"

definition run :: "event list \<Rightarrow> world \<Rightarrow> world" where
  "run es w = foldl (\<lambda>s e. step e s) w es"

subsection \<open>Observing the object URLs\<close>

text \<open>How often \<^verbatim>\<open>URL.revokeObjectURL\<close> has been called on the handle \<open>h\<close>, and the
  handles that were created and never revoked.\<close>

definition revocations :: "nat \<Rightarrow> world \<Rightarrow> nat" where
  "revocations h w = count_list (url_log w) (Revoke h)"

definition outstanding :: "world \<Rightarrow> nat list" where
  "outstanding w = filter (\<lambda>h. Revoke h \<notin> set (url_log w)) [0..<next_url w]"

subsection \<open>Invariants of the reachable states\<close>

text \<open>Every staged entry carries the identifier computed from its file's metadata.\<close>

definition ids_ok :: "world \<Rightarrow> bool" where
  "ids_ok w = list_all (\<lambda>s. id' s = mk_id (file' s)) (files (ui w))"

text \<open>At most one interval is registered; it is the one \<^verbatim>\<open>pollRef\<close> holds, and its
  period is 500 ms.\<close>

definition timers_ok :: "world \<Rightarrow> bool" where
  "timers_ok w = (next_timer w \<noteq> 0 \<and>
     (case timers w of
        [] \<Rightarrow> True
      | [x] \<Rightarrow> pollRef w = Some (t_id x) \<and> t_id x \<noteq> 0 \<and> t_ms x = 500
      | _ \<Rightarrow> False))"

text \<open>At most one upload is in flight; while the page is mounted \<^verbatim>\<open>isUploading\<close> says
  so, and no job is held while one is in flight.\<close>

definition upload_ok :: "world \<Rightarrow> bool" where
  "upload_ok w = (uploads w \<le> 1 \<and>
     (if mounted w then isUploading (ui w) = (uploads w = 1) else True) \<and>
     (if uploads w = 1 then job (ui w) = None else True))"

definition world_ok :: "world \<Rightarrow> bool" where
  "world_ok w = (ids_ok w \<and> timers_ok w \<and> upload_ok w \<and> length (files (ui w)) \<le> 25)"

subsection \<open>Example inputs\<close>

abbreviation (input) photo_a :: jsfile where
  "photo_a \<equiv> \<lparr>name = ''a.png'', size' = 3, lastModified = 7\<rparr>"

abbreviation (input) photo_b :: jsfile where
  "photo_b \<equiv> \<lparr>name = ''b.png'', size' = 4, lastModified = 8\<rparr>"

abbreviation (input) photo_c :: jsfile where
  "photo_c \<equiv> \<lparr>name = ''c.png'', size' = 5, lastModified = 9\<rparr>"

abbreviation (input) job_j1 :: upload_body where
  "job_j1 \<equiv> \<lparr>job_id = Some ''j1'', saved_count = Some 1, skipped_count = Some 0, detail = None\<rparr>"

abbreviation (input) poll_resp :: "string \<Rightarrow> int \<Rightarrow> poll_body" where
  "poll_resp st p \<equiv> \<lparr>status = Some st, progress = Some p, download_url = None, error = None\<rparr>"

abbreviation (input) poll_done :: poll_body where
  "poll_done \<equiv> \<lparr>status = Some ''done'', progress = Some 100,
                 download_url = Some ''/dl/x.mp4'', error = None\<rparr>"

abbreviation (input) started :: "string \<Rightarrow> render_start" where
  "started rid \<equiv> \<lparr>render_id = rid, r_status = Some ''queued''\<rparr>"

text \<open>One photo is staged and uploaded, a render is requested and the backend has answered
  with the render id \<^verbatim>\<open>r1\<close>: the poll loop for \<^verbatim>\<open>r1\<close> is running.\<close>

abbreviation (input) rendering_r1 :: "event list" where
  "rendering_r1 \<equiv> [Drop [photo_a], HandleUpload, UploadDone (XhrLoad 200 (Some job_j1)),
      HandleStartRender, StartRenderDone 0 (StartOk (started ''r1''))]"




text \<open>The page is unmounted while the request that starts a render is in flight; the answer
  arrives afterwards.\<close>

abbreviation (input) start_answer_after_unmount :: "event list" where
  "start_answer_after_unmount \<equiv> [Drop [photo_a], HandleUpload,
      UploadDone (XhrLoad 200 (Some job_j1)), HandleStartRender, Unmount,
      StartRenderDone 0 (StartOk (started ''r1''))]"

section \<open>Invariant preservation\<close>

lemmas handler_defs =
  onDrop_def removeFile_def clearAll_def setFiles_def handleUpload_def uploadProgress_def
  uploadDone_def handleStartRender_def startRenderDone_def tick_def pollDone_def unmount_def

lemmas eval_defs =
  run_def step_def init_def init_ui_def handler_defs Let_def mk_id_def show_nat.simps digit_char_def
  revokeAll_def truthy_def js_or_def API_URL_def uploadFiles_def failure_message_def
  response_detail_def clear_if_set_def clearInterval_def terminal_def

lemma mapped_ids: "s \<in> set (mapped n fs) \<Longrightarrow> id' s = mk_id (file' s)"
  by (induction fs arbitrary: n) auto

lemma ids_ok_handle: "ids_ok w \<Longrightarrow> ids_ok (handle e w)"
  by (cases e)
     (auto simp: ids_ok_def handler_defs Let_def list_all_iff
        dest: in_set_takeD mapped_ids
        split: option.splits sum.splits start_outcome.splits poll_outcome.splits)

lemma ids_ok_step: "ids_ok w \<Longrightarrow> ids_ok (step e w)"
  using ids_ok_handle[of w e] by (auto simp: step_def ids_ok_def)

lemma timers_ok_handle: "timers_ok w \<Longrightarrow> timers_ok (handle e w)"
  by (cases e)
     (auto simp: timers_ok_def handler_defs Let_def clear_if_set_def clearInterval_def
        split: option.splits sum.splits start_outcome.splits poll_outcome.splits
          list.splits if_splits)

lemma timers_ok_ui [simp]: "timers_ok (w\<lparr>ui := u\<rparr>) = timers_ok w"
  by (simp add: timers_ok_def split: list.splits)

lemma timers_ok_step: "timers_ok w \<Longrightarrow> timers_ok (step e w)"
  by (simp add: step_def timers_ok_handle)

lemma upload_ok_handle: "mounted w \<Longrightarrow> upload_ok w \<Longrightarrow> upload_ok (handle e w)"
  by (cases e)
     (auto simp: upload_ok_def handler_defs Let_def
        split: option.splits sum.splits start_outcome.splits poll_outcome.splits if_splits)

lemma upload_ok_frozen:
  "\<not> mounted w \<Longrightarrow> \<not> user_event e \<Longrightarrow> upload_ok w
     \<Longrightarrow> upload_ok ((handle e w)\<lparr>ui := ui w\<rparr>)"
  by (cases e)
     (auto simp: upload_ok_def handler_defs Let_def
        split: option.splits sum.splits start_outcome.splits poll_outcome.splits if_splits)

lemma upload_ok_step: "upload_ok w \<Longrightarrow> upload_ok (step e w)"
  by (simp add: step_def upload_ok_handle upload_ok_frozen)

lemma length_files_handle:
  "length (files (ui w)) \<le> 25 \<Longrightarrow> length (files (ui (handle e w))) \<le> 25"
  by (cases e)
     (auto simp: handler_defs Let_def intro: le_trans[OF length_filter_le]
        split: option.splits sum.splits start_outcome.splits poll_outcome.splits if_splits)

lemma length_files_step:
  "length (files (ui w)) \<le> 25 \<Longrightarrow> length (files (ui (step e w))) \<le> 25"
  by (simp add: step_def length_files_handle)

lemma world_ok_step: "world_ok w \<Longrightarrow> world_ok (step e w)"
  by (simp add: world_ok_def ids_ok_step timers_ok_step upload_ok_step length_files_step)

lemma world_ok_init: "world_ok (init env)"
  by (simp add: world_ok_def ids_ok_def timers_ok_def upload_ok_def init_def init_ui_def)

lemma world_ok_run_from: "world_ok w \<Longrightarrow> world_ok (run es w)"
  by (induction es arbitrary: w) (simp_all add: run_def world_ok_step)

lemma world_ok_run: "world_ok (run es (init env))"
  by (rule world_ok_run_from [OF world_ok_init])

section \<open>Running examples\<close>

lemma run_append: "run (es @ es') w = run es' (run es w)"
  by (simp add: run_def)

lemma rendering_r1_state:
  "run rendering_r1 (init env) =
     \<lparr>ui = \<lparr>files = [\<lparr>file' = photo_a, previewUrl = 0, id' = ''a.png-3-7''\<rparr>],
             isUploading = False, uploadPct = 100, uploadError = [], job = Some job_j1,
             renderId = Some ''r1'', renderStatus = Some ''queued'', renderPct = 0,
             renderErr = [], downloadUrl = []\<rparr>,
       mounted = True, pollRef = Some 1,
       timers = [\<lparr>t_id = 1, t_ms = 500, t_rid = ''r1''\<rparr>], next_timer = 2,
       polls = [], next_poll = 0, starts = [], next_start = 1, uploads = 0, next_url = 1,
       url_log = [Create 0], VITE_API_URL = env\<rparr>"
  by (simp add: eval_defs)

section \<open>The staging set\<close>

lemma files_drop: "files (ui (step (Drop acc) w)) =
   (if mounted w then take 25 (files (ui w) @ mapped (next_url w) acc) else files (ui w))"
  by (simp add: step_def onDrop_def setFiles_def Let_def)

lemma files_remove: "files (ui (step (RemoveFile i) w)) =
   (if mounted w then filter (\<lambda>f. id' f \<noteq> i) (files (ui w)) else files (ui w))"
  by (simp add: step_def removeFile_def setFiles_def)

lemma files_clear: "files (ui (step ClearAll w)) = (if mounted w then [] else files (ui w))"
  by (simp add: step_def clearAll_def setFiles_def Let_def)

text \<open>
  Claim C4.  After every sequence of events the staging set holds at most 25 entries.  A drop
  appends the new entries, in the order they were accepted, behind the entries already
  staged and keeps the first 25 of the result, so the entries already staged stay where they
  are and what does not fit is cut off at the end; a removal leaves a subsequence; a clear
  leaves nothing.
\<close>

theorem staging_set_capped:
  assumes "w = run es (init env)"
  shows "length (files (ui w)) \<le> 25
     \<and> files (ui (step (Drop acc) w)) =
         (if mounted w then take 25 (files (ui w) @ mapped (next_url w) acc) else files (ui w))
     \<and> map file' (mapped (next_url w) acc) = acc
     \<and> prefix (files (ui w)) (files (ui (step (Drop acc) w)))
     \<and> length (files (ui (step (Drop acc) w))) \<le> 25
     \<and> subseq (files (ui (step (RemoveFile i) w))) (files (ui w))
     \<and> files (ui (step ClearAll w)) = (if mounted w then [] else files (ui w))"
proof -
  have len: "length (files (ui w)) \<le> 25"
    using world_ok_run [of es env] assms by (simp add: world_ok_def)
  have pre: "prefix (files (ui w)) (files (ui (step (Drop acc) w)))"
    using len by (simp add: files_drop)
  have sub: "subseq (files (ui (step (RemoveFile i) w))) (files (ui w))"
    by (simp add: files_remove)
  have ord: "map file' (mapped n acc) = acc" for n
    by (induction acc arbitrary: n) simp_all
  have len': "length (files (ui (step (Drop acc) w))) \<le> 25"
    by (rule length_files_step [OF len])
  show ?thesis
    using len pre sub ord len' by (simp add: files_drop files_clear)
qed

theorem staging_set_capped_witness:
  "length (files (ui (run [Drop (replicate 24 photo_a)]
                       (init None)))) \<le> 25
   \<and> map id' (files (ui (step (Drop [photo_b,
                                      photo_c])
        (run [Drop (replicate 24 photo_a)] (init None)))))
     = replicate 24 ''a.png-3-7'' @ [''b.png-4-8'']"
proof -
  have "map id' (files (ui (step (Drop [photo_b,
                                      photo_c])
        (run [Drop (replicate 24 photo_a)] (init None)))))
     = replicate 24 ''a.png-3-7'' @ [''b.png-4-8'']"
    by code_simp
  with staging_set_capped [OF refl, THEN conjunct1] show ?thesis
    by (rule conjI)
qed

text \<open>
  Claim C10.  The identifier of a staged entry is its file's name, size and modification
  time joined by dashes.  When two staged entries have the same name, size and modification
  time, they have the same identifier, and one \<^verbatim>\<open>removeFile\<close> with that identifier
  removes both: what remains are exactly the entries with another identifier, in their
  previous order.
\<close>

theorem removeFile_by_identifier:
  assumes "w = run es (init env)" and "mounted w"
    and "a \<in> set (files (ui w))" and "b \<in> set (files (ui w))"
    and "name (file' a) = name (file' b)"
    and "size' (file' a) = size' (file' b)"
    and "lastModified (file' a) = lastModified (file' b)"
  shows "id' a = name (file' a) @ ''-'' @ show_nat (size' (file' a)) @ ''-''
                   @ show_nat (lastModified (file' a))
     \<and> id' b = id' a
     \<and> a \<notin> set (files (ui (step (RemoveFile (id' a)) w)))
     \<and> b \<notin> set (files (ui (step (RemoveFile (id' a)) w)))
     \<and> files (ui (step (RemoveFile (id' a)) w)) = filter (\<lambda>f. id' f \<noteq> id' a) (files (ui w))
     \<and> subseq (files (ui (step (RemoveFile (id' a)) w))) (files (ui w))"
proof -
  have "ids_ok w"
    using world_ok_run [of es env] assms(1) by (simp add: world_ok_def)
  then have ids: "id' a = mk_id (file' a)" "id' b = mk_id (file' b)"
    using assms(3,4) by (auto simp: ids_ok_def list_all_iff)
  have same: "id' b = id' a"
    using ids assms(5-7) by (simp add: mk_id_def)
  show ?thesis
    using ids(1) same assms(2) by (simp add: files_remove mk_id_def)
qed

theorem removeFile_by_identifier_witness:
  "files (ui (run [Drop [photo_a,
                         photo_b,
                         photo_a]] (init None)))
     = [\<lparr>file' = photo_a, previewUrl = 0, id' = ''a.png-3-7''\<rparr>,
        \<lparr>file' = photo_b, previewUrl = 1, id' = ''b.png-4-8''\<rparr>,
        \<lparr>file' = photo_a, previewUrl = 2, id' = ''a.png-3-7''\<rparr>]
   \<and> files (ui (step (RemoveFile ''a.png-3-7'')
        (run [Drop [photo_a,
                    photo_b,
                    photo_a]] (init None))))
     = [\<lparr>file' = photo_b, previewUrl = 1, id' = ''b.png-4-8''\<rparr>]"
proof -
  let ?fa = "photo_a"
  let ?fb = "photo_b"
  let ?w = "run [Drop [?fa, ?fb, ?fa]] (init None)"
  let ?a = "\<lparr>file' = ?fa, previewUrl = 0, id' = ''a.png-3-7''\<rparr>"
  let ?b = "\<lparr>file' = ?fa, previewUrl = 2, id' = ''a.png-3-7''\<rparr>"
  have fs: "files (ui ?w) = [?a, \<lparr>file' = ?fb, previewUrl = 1, id' = ''b.png-4-8''\<rparr>, ?b]"
    by (simp add: eval_defs)
  have m: "mounted ?w" by (simp add: eval_defs)
  have a: "?a \<in> set (files (ui ?w))" and b: "?b \<in> set (files (ui ?w))"
    by (simp_all add: fs)
  have n: "name (file' ?a) = name (file' ?b)" and s: "size' (file' ?a) = size' (file' ?b)"
    and l: "lastModified (file' ?a) = lastModified (file' ?b)"
    by simp_all
  note removeFile_by_identifier [OF refl m a b n s l]
  note this [THEN conjunct2, THEN conjunct2, THEN conjunct2, THEN conjunct2, THEN conjunct1]
  then have "files (ui (step (RemoveFile ''a.png-3-7'') ?w))
             = filter (\<lambda>f. id' f \<noteq> ''a.png-3-7'') (files (ui ?w))"
    by simp
  then show ?thesis by (simp add: fs)
qed

section \<open>Preview handles\<close>

text \<open>
  Claim C2.  The claim asks for exactly one release per preview handle and for no handle
  outstanding once the staging set is empty.  The page does neither.  Dropping one file and
  clearing revokes that file's handle twice: once in \<^verbatim>\<open>clearAll\<close> itself and once more by
  the cleanup of the \<^verbatim>\<open>[files]\<close> effect when the emptied array is rendered.  Dropping 20
  files and then 10 creates 30 handles and stages 25 entries; the handles of the five
  entries cut off by \<^verbatim>\<open>slice(0, 25)\<close> are never revoked, so after a clear the staging set is
  empty with five handles outstanding.
\<close>

theorem preview_handles_released_twice_or_leaked:
  "revocations 0 (run [Drop [photo_a], ClearAll] (init None)) = 2
   \<and> files (ui (run [Drop (replicate 20 photo_a),
                     Drop (replicate 10 photo_b),
                     ClearAll] (init None))) = []
   \<and> outstanding (run [Drop (replicate 20 photo_a),
                     Drop (replicate 10 photo_b),
                     ClearAll] (init None)) = [25, 26, 27, 28, 29]"
  by code_simp

section \<open>Upload\<close>






section \<open>Render polling\<close>

text \<open>
  Claim C9.  When the response to a poll carries a non-empty \<^verbatim>\<open>download_url\<close>, the page
  exposes \<^verbatim>\<open>API_URL\<close> followed by that path, together with the response's status and
  progress.  For the poll sequence queued(0), processing(40), processing(90),
  done(100, /dl/x.mp4) this ends with status done, progress 100 and the download location
  \<^verbatim>\<open>http://localhost:8000/dl/x.mp4\<close> under the default base address.
\<close>

theorem download_location_qualified:
  assumes "mounted w" and "map_of (polls w) k = Some rid"
    and "download_url s = Some p" and "p \<noteq> []"
  shows "downloadUrl (ui (step (PollDone k (PollOk s)) w)) = API_URL (VITE_API_URL w) @ p
     \<and> suffix p (downloadUrl (ui (step (PollDone k (PollOk s)) w)))
     \<and> renderStatus (ui (step (PollDone k (PollOk s)) w)) = status s
     \<and> renderPct (ui (step (PollDone k (PollOk s)) w))
          = (case progress s of None \<Rightarrow> 0 | Some n \<Rightarrow> n)"
  using assms by (simp add: step_def pollDone_def Let_def truthy_def suffix_def)

theorem download_location_qualified_witness:
  "renderStatus (ui (run (rendering_r1 @
      [Tick 1, PollDone 0 (PollOk (poll_resp ''queued'' 0)),
       Tick 1, PollDone 1 (PollOk (poll_resp ''processing'' 40)),
       Tick 1, PollDone 2 (PollOk (poll_resp ''processing'' 90)),
       Tick 1, PollDone 3 (PollOk poll_done)])
      (init None))) = Some ''done''
   \<and> renderPct (ui (run (rendering_r1 @
      [Tick 1, PollDone 0 (PollOk (poll_resp ''queued'' 0)),
       Tick 1, PollDone 1 (PollOk (poll_resp ''processing'' 40)),
       Tick 1, PollDone 2 (PollOk (poll_resp ''processing'' 90)),
       Tick 1, PollDone 3 (PollOk poll_done)])
      (init None))) = 100
   \<and> downloadUrl (ui (run (rendering_r1 @
      [Tick 1, PollDone 0 (PollOk (poll_resp ''queued'' 0)),
       Tick 1, PollDone 1 (PollOk (poll_resp ''processing'' 40)),
       Tick 1, PollDone 2 (PollOk (poll_resp ''processing'' 90)),
       Tick 1, PollDone 3 (PollOk poll_done)])
      (init None))) = ''http://localhost:8000/dl/x.mp4''"
proof -
  let ?w = "run (rendering_r1 @
      [Tick 1, PollDone 0 (PollOk (poll_resp ''queued'' 0)),
       Tick 1, PollDone 1 (PollOk (poll_resp ''processing'' 40)),
       Tick 1, PollDone 2 (PollOk (poll_resp ''processing'' 90)),
       Tick 1]) (init None)"
  have w: "?w = \<lparr>ui = \<lparr>files = [\<lparr>file' = photo_a, previewUrl = 0, id' = ''a.png-3-7''\<rparr>],
             isUploading = False, uploadPct = 100, uploadError = [], job = Some job_j1,
             renderId = Some ''r1'', renderStatus = Some ''processing'', renderPct = 90,
             renderErr = [], downloadUrl = []\<rparr>,
       mounted = True, pollRef = Some 1,
       timers = [\<lparr>t_id = 1, t_ms = 500, t_rid = ''r1''\<rparr>], next_timer = 2,
       polls = [(3, ''r1'')], next_poll = 4, starts = [], next_start = 1, uploads = 0,
       next_url = 1, url_log = [Create 0], VITE_API_URL = None\<rparr>"
    unfolding run_append [of rendering_r1] rendering_r1_state
    by (simp add: run_def step_def handler_defs Let_def terminal_def truthy_def)
  have m: "mounted ?w" and p: "map_of (polls ?w) 3 = Some ''r1''"
    unfolding w by simp_all
  have d: "download_url poll_done = Some ''/dl/x.mp4''" and ne: "''/dl/x.mp4'' \<noteq> []"
    by simp_all
  have split: "run (rendering_r1 @
      [Tick 1, PollDone 0 (PollOk (poll_resp ''queued'' 0)),
       Tick 1, PollDone 1 (PollOk (poll_resp ''processing'' 40)),
       Tick 1, PollDone 2 (PollOk (poll_resp ''processing'' 90)),
       Tick 1, PollDone 3 (PollOk poll_done)]) (init None)
      = step (PollDone 3 (PollOk poll_done)) ?w"
    by (simp add: run_def)
  have api: "API_URL (VITE_API_URL ?w) = ''http://localhost:8000''"
    unfolding w by (simp add: API_URL_def js_or_def)
  show ?thesis
    unfolding split
    using download_location_qualified [OF m p d ne] api by simp
qed

lemma reachable_timers:
  assumes "w = run es (init env)"
  shows "timers_ok w"
  using world_ok_run [of es env] assms by (simp add: world_ok_def)

lemma pollDone_throws:
  "step (PollDone k PollThrows) w
     = (if map_of (polls w) k = None then w else w\<lparr>polls := filter (\<lambda>p. fst p \<noteq> k) (polls w)\<rparr>)"
  by (cases w) (auto simp: step_def pollDone_def Let_def split: option.splits)

lemma pollDone_timers_nonterminal:
  "\<not> terminal (status s) \<Longrightarrow> timers (step (PollDone k (PollOk s)) w) = timers w"
  by (auto simp: step_def pollDone_def Let_def split: option.splits)

lemma pollDone_timers_terminal:
  assumes "timers_ok w" and "map_of (polls w) k = Some rid" and "terminal (status s)"
  shows "timers (step (PollDone k (PollOk s)) w) = []"
  using assms
  by (auto simp: step_def pollDone_def Let_def timers_ok_def clearInterval_def
      split: option.splits list.splits)

lemma startRenderDone_timers:
  assumes "timers_ok w" and "map_of (starts w) j = Some jid"
  shows "timers (step (StartRenderDone j (StartOk r)) w)
           = [\<lparr>t_id = next_timer w, t_ms = 500, t_rid = render_id r\<rparr>]"
    and "pollRef (step (StartRenderDone j (StartOk r)) w) = Some (next_timer w)"
  using assms
  by (auto simp: step_def startRenderDone_def Let_def timers_ok_def clear_if_set_def
        clearInterval_def split: list.splits option.splits)

lemma tick_no_timer: "timers w = [] \<Longrightarrow> step (Tick t) w = w"
  by (cases w) (auto simp: step_def tick_def)

lemma tick_polls:
  "find (\<lambda>x. t_id x = t) (timers w) = Some x
     \<Longrightarrow> polls (step (Tick t) w) = polls w @ [(next_poll w, t_rid x)]"
  by (auto simp: step_def tick_def)

lemma tick_timers: "timers (step (Tick t) w) = timers w"
  by (auto simp: step_def tick_def split: option.splits)

text \<open>
  Against claim C8 as stated.  Only a poll that throws is swallowed.  A body that parses but
  lacks its fields, such as \<^verbatim>\<open>{}\<close>, is a successful poll: with status
  \<^verbatim>\<open>processing\<close> and progress 40 on the page, its answer sets the status to
  \<^verbatim>\<open>undefined\<close> and the progress to 0; a body with a status and no progress sets the
  progress to 0.
\<close>

theorem parseable_poll_body_overwrites_status:
  "renderStatus (ui (run (rendering_r1 @
        [Tick 1, PollDone 0 (PollOk (poll_resp ''processing'' 40)), Tick 1]) (init None)))
     = Some ''processing''
   \<and> renderPct (ui (run (rendering_r1 @
        [Tick 1, PollDone 0 (PollOk (poll_resp ''processing'' 40)), Tick 1]) (init None))) = 40
   \<and> renderStatus (ui (run (rendering_r1 @
        [Tick 1, PollDone 0 (PollOk (poll_resp ''processing'' 40)), Tick 1,
         PollDone 1 (PollOk \<lparr>status = None, progress = None, download_url = None, error = None\<rparr>)])
        (init None))) = None
   \<and> renderPct (ui (run (rendering_r1 @
        [Tick 1, PollDone 0 (PollOk (poll_resp ''processing'' 40)), Tick 1,
         PollDone 1 (PollOk \<lparr>status = None, progress = None, download_url = None, error = None\<rparr>)])
        (init None))) = 0
   \<and> renderPct (ui (run (rendering_r1 @
        [Tick 1, PollDone 0 (PollOk (poll_resp ''processing'' 40)), Tick 1,
         PollDone 1 (PollOk \<lparr>status = Some ''processing'', progress = None,
                              download_url = None, error = None\<rparr>)])
        (init None))) = 0"
  by (simp add: eval_defs)

text \<open>
  Claim C8, as amended.  A poll whose \<^verbatim>\<open>try\<close> block throws (the fetch rejects, the
  response is not ok, the body is not JSON or is \<^verbatim>\<open>null\<close>) changes nothing the page
  exposes and leaves the interval and \<^verbatim>\<open>pollRef\<close> as they are, so the next firing of the
  interval issues the next fetch.  Among the outcomes of a poll, only a successful response
  with status \<^verbatim>\<open>done\<close> or \<^verbatim>\<open>error\<close> changes the registered intervals.
\<close>

theorem transient_poll_failure_swallowed:
  "ui (step (PollDone k PollThrows) w) = ui w
   \<and> timers (step (PollDone k PollThrows) w) = timers w
   \<and> pollRef (step (PollDone k PollThrows) w) = pollRef w
   \<and> (find (\<lambda>x. t_id x = t) (timers w) = Some x \<longrightarrow>
        polls (step (Tick t) (step (PollDone k PollThrows) w))
          = polls (step (PollDone k PollThrows) w) @ [(next_poll w, t_rid x)])
   \<and> (timers (step (PollDone k r) w) \<noteq> timers w \<longrightarrow>
        (\<exists>s. r = PollOk s \<and> (status s = Some ''done'' \<or> status s = Some ''error'')))"
proof -
  have a: "ui (step (PollDone k PollThrows) w) = ui w"
    and b: "timers (step (PollDone k PollThrows) w) = timers w"
    and c: "pollRef (step (PollDone k PollThrows) w) = pollRef w"
    and n: "next_poll (step (PollDone k PollThrows) w) = next_poll w"
    by (simp_all add: pollDone_throws)
  have d: "find (\<lambda>x. t_id x = t) (timers w) = Some x \<longrightarrow>
        polls (step (Tick t) (step (PollDone k PollThrows) w))
          = polls (step (PollDone k PollThrows) w) @ [(next_poll w, t_rid x)]"
    using tick_polls [of t "step (PollDone k PollThrows) w" x] by (simp add: b n)
  have e: "timers (step (PollDone k r) w) \<noteq> timers w \<longrightarrow>
        (\<exists>s. r = PollOk s \<and> (status s = Some ''done'' \<or> status s = Some ''error''))"
  proof (cases r)
    case PollThrows
    then show ?thesis by (simp add: b)
  next
    case (PollOk s)
    then show ?thesis
      using pollDone_timers_nonterminal [of s k w] by (auto simp: terminal_def)
  qed
  show ?thesis using a b c d e by (intro conjI)
qed

theorem transient_poll_failure_swallowed_witness:
  "renderStatus (ui (step (PollDone 1 PollThrows)
      (run (rendering_r1 @ [Tick 1, PollDone 0 (PollOk (poll_resp ''processing'' 40)), Tick 1])
         (init None)))) = Some ''processing''
   \<and> renderPct (ui (step (PollDone 1 PollThrows)
      (run (rendering_r1 @ [Tick 1, PollDone 0 (PollOk (poll_resp ''processing'' 40)), Tick 1])
         (init None)))) = 40
   \<and> timers (step (PollDone 1 PollThrows)
      (run (rendering_r1 @ [Tick 1, PollDone 0 (PollOk (poll_resp ''processing'' 40)), Tick 1])
         (init None))) = [\<lparr>t_id = 1, t_ms = 500, t_rid = ''r1''\<rparr>]
   \<and> polls (step (Tick 1) (step (PollDone 1 PollThrows)
      (run (rendering_r1 @ [Tick 1, PollDone 0 (PollOk (poll_resp ''processing'' 40)), Tick 1])
         (init None)))) = [(2, ''r1'')]
   \<and> timers (step (PollDone 1 (PollOk poll_done))
      (run (rendering_r1 @ [Tick 1, PollDone 0 (PollOk (poll_resp ''processing'' 40)), Tick 1])
         (init None)))
       \<noteq> timers (run (rendering_r1 @
           [Tick 1, PollDone 0 (PollOk (poll_resp ''processing'' 40)), Tick 1]) (init None))
   \<and> (\<exists>s. PollOk poll_done = PollOk s \<and> (status s = Some ''done'' \<or> status s = Some ''error''))"
proof -
  let ?w = "run (rendering_r1 @ [Tick 1, PollDone 0 (PollOk (poll_resp ''processing'' 40)), Tick 1])
         (init None)"
  let ?x = "\<lparr>t_id = 1, t_ms = 500, t_rid = ''r1''\<rparr>"
  have w: "?w = \<lparr>ui = \<lparr>files = [\<lparr>file' = photo_a, previewUrl = 0, id' = ''a.png-3-7''\<rparr>],
             isUploading = False, uploadPct = 100, uploadError = [], job = Some job_j1,
             renderId = Some ''r1'', renderStatus = Some ''processing'', renderPct = 40,
             renderErr = [], downloadUrl = []\<rparr>,
       mounted = True, pollRef = Some 1, timers = [?x], next_timer = 2,
       polls = [(1, ''r1'')], next_poll = 2, starts = [], next_start = 1, uploads = 0,
       next_url = 1, url_log = [Create 0], VITE_API_URL = None\<rparr>"
    unfolding run_append [of rendering_r1] rendering_r1_state
    by (simp add: run_def step_def handler_defs Let_def terminal_def truthy_def)
  have f: "find (\<lambda>x. t_id x = 1) (timers ?w) = Some ?x"
    unfolding w by simp
  note t = transient_poll_failure_swallowed [of 1 ?w 1 ?x]
  have 1: "ui (step (PollDone 1 PollThrows) ?w) = ui ?w"
    by (rule t [THEN conjunct1])
  have 2: "timers (step (PollDone 1 PollThrows) ?w) = timers ?w"
    by (rule t [THEN conjunct2, THEN conjunct1])
  have 3: "polls (step (Tick 1) (step (PollDone 1 PollThrows) ?w))
          = polls (step (PollDone 1 PollThrows) ?w) @ [(next_poll ?w, t_rid ?x)]"
    using t [THEN conjunct2, THEN conjunct2, THEN conjunct2, THEN conjunct1] f by (rule mp)
  have 4: "polls (step (PollDone 1 PollThrows) ?w) = []"
    unfolding w by (simp add: step_def pollDone_def)
  have 5: "timers (step (PollDone 1 (PollOk poll_done)) ?w) \<noteq> timers ?w"
    unfolding w by (simp add: step_def pollDone_def Let_def terminal_def clearInterval_def)
  have 6: "\<exists>s. PollOk poll_done = PollOk s \<and> (status s = Some ''done'' \<or> status s = Some ''error'')"
    using transient_poll_failure_swallowed [of 1 ?w 1 ?x "PollOk poll_done",
        THEN conjunct2, THEN conjunct2, THEN conjunct2, THEN conjunct2] 5
    by (rule mp)
  have 7: "renderStatus (ui (step (PollDone 1 PollThrows) ?w)) = Some ''processing''
     \<and> renderPct (ui (step (PollDone 1 PollThrows) ?w)) = 40
     \<and> timers (step (PollDone 1 PollThrows) ?w) = [?x]
     \<and> polls (step (Tick 1) (step (PollDone 1 PollThrows) ?w)) = [(2, ''r1'')]"
    unfolding 1 2 3 4 unfolding w by simp
  show ?thesis
    using 7 5 6 by (intro conjI) (elim conjE, assumption)+
qed

text \<open>
  Claim C7.  The interval registered when a render has started has a period of 500 ms, like
  every interval of a reachable state, and each of its firings issues one status fetch for
  the render id it captured and keeps the interval.  A successful response with status
  \<^verbatim>\<open>done\<close> or \<^verbatim>\<open>error\<close> leaves no interval registered, so no firing issues a fetch
  afterwards; a response with another status, or a failed poll, leaves the intervals as
  they are.
\<close>

theorem polling_cadence_and_stop:
  assumes "w = run es (init env)"
  shows "list_all (\<lambda>x. t_ms x = 500) (timers w)
   \<and> (map_of (starts w) j = Some jid \<longrightarrow>
        timers (step (StartRenderDone j (StartOk r)) w)
          = [\<lparr>t_id = next_timer w, t_ms = 500, t_rid = render_id r\<rparr>])
   \<and> (find (\<lambda>x. t_id x = t) (timers w) = Some x \<longrightarrow>
        polls (step (Tick t) w) = polls w @ [(next_poll w, t_rid x)]
        \<and> timers (step (Tick t) w) = timers w)
   \<and> (map_of (polls w) k = Some rid \<and> (status s = Some ''done'' \<or> status s = Some ''error'') \<longrightarrow>
        timers (step (PollDone k (PollOk s)) w) = []
        \<and> step (Tick t) (step (PollDone k (PollOk s)) w) = step (PollDone k (PollOk s)) w)
   \<and> (status s \<noteq> Some ''done'' \<and> status s \<noteq> Some ''error'' \<longrightarrow>
        timers (step (PollDone k (PollOk s)) w) = timers w)
   \<and> timers (step (PollDone k PollThrows) w) = timers w"
proof -
  have ok: "timers_ok w" by (rule reachable_timers [OF assms])
  have a: "list_all (\<lambda>x. t_ms x = 500) (timers w)"
    using ok by (auto simp: timers_ok_def split: list.splits)
  have b: "map_of (starts w) j = Some jid \<longrightarrow>
        timers (step (StartRenderDone j (StartOk r)) w)
          = [\<lparr>t_id = next_timer w, t_ms = 500, t_rid = render_id r\<rparr>]"
    using startRenderDone_timers(1) [OF ok] by simp
  have c: "find (\<lambda>x. t_id x = t) (timers w) = Some x \<longrightarrow>
        polls (step (Tick t) w) = polls w @ [(next_poll w, t_rid x)]
        \<and> timers (step (Tick t) w) = timers w"
    by (simp add: tick_polls tick_timers)
  have d: "map_of (polls w) k = Some rid \<and> (status s = Some ''done'' \<or> status s = Some ''error'') \<longrightarrow>
        timers (step (PollDone k (PollOk s)) w) = []
        \<and> step (Tick t) (step (PollDone k (PollOk s)) w) = step (PollDone k (PollOk s)) w"
    using pollDone_timers_terminal [OF ok, of k rid s]
    by (auto simp: terminal_def tick_no_timer)
  have e: "status s \<noteq> Some ''done'' \<and> status s \<noteq> Some ''error'' \<longrightarrow>
        timers (step (PollDone k (PollOk s)) w) = timers w"
    using pollDone_timers_nonterminal [of s k w] by (simp add: terminal_def)
  have f: "timers (step (PollDone k PollThrows) w) = timers w"
    by (simp add: pollDone_throws)
  show ?thesis using a b c d e f by (intro conjI)
qed

theorem polling_cadence_and_stop_witness:
  "timers (step (PollDone 0 (PollOk poll_done)) (run (rendering_r1 @ [Tick 1]) (init None))) = []
   \<and> step (Tick 1) (step (PollDone 0 (PollOk poll_done)) (run (rendering_r1 @ [Tick 1]) (init None)))
       = step (PollDone 0 (PollOk poll_done)) (run (rendering_r1 @ [Tick 1]) (init None))
   \<and> timers (step (PollDone 0 (PollOk (poll_resp ''processing'' 40)))
        (run (rendering_r1 @ [Tick 1]) (init None))) = [\<lparr>t_id = 1, t_ms = 500, t_rid = ''r1''\<rparr>]
   \<and> polls (step (Tick 1) (run (rendering_r1 @ [Tick 1]) (init None))) = [(0, ''r1''), (1, ''r1'')]
   \<and> timers (step (StartRenderDone 0 (StartOk (started ''r1'')))
        (run [Drop [photo_a], HandleUpload, UploadDone (XhrLoad 200 (Some job_j1)),
              HandleStartRender] (init None))) = [\<lparr>t_id = 1, t_ms = 500, t_rid = ''r1''\<rparr>]"
proof -
  let ?w = "run (rendering_r1 @ [Tick 1]) (init None)"
  let ?x = "\<lparr>t_id = 1, t_ms = 500, t_rid = ''r1''\<rparr>"
  have w: "?w = \<lparr>ui = \<lparr>files = [\<lparr>file' = photo_a, previewUrl = 0, id' = ''a.png-3-7''\<rparr>],
             isUploading = False, uploadPct = 100, uploadError = [], job = Some job_j1,
             renderId = Some ''r1'', renderStatus = Some ''queued'', renderPct = 0,
             renderErr = [], downloadUrl = []\<rparr>,
       mounted = True, pollRef = Some 1, timers = [?x], next_timer = 2,
       polls = [(0, ''r1'')], next_poll = 1, starts = [], next_start = 1, uploads = 0,
       next_url = 1, url_log = [Create 0], VITE_API_URL = None\<rparr>"
    unfolding run_append [of rendering_r1] rendering_r1_state
    by (simp add: run_def step_def handler_defs Let_def)
  have f: "find (\<lambda>x. t_id x = 1) (timers ?w) = Some ?x"
    and p: "map_of (polls ?w) 0 = Some ''r1''"
    unfolding w by simp_all
  have eq: "?w = run (rendering_r1 @ [Tick 1]) (init None)" by (rule refl)
  note td = polling_cadence_and_stop [OF eq, where k = 0 and rid = "''r1''" and s = poll_done
      and t = 1 and x = ?x]
  note tp = polling_cadence_and_stop [OF eq, where k = 0 and s = "poll_resp ''processing'' 40"]
  have 1: "timers (step (PollDone 0 (PollOk poll_done)) ?w) = []
        \<and> step (Tick 1) (step (PollDone 0 (PollOk poll_done)) ?w)
            = step (PollDone 0 (PollOk poll_done)) ?w"
    using td [THEN conjunct2, THEN conjunct2, THEN conjunct2, THEN conjunct1] p by simp
  have 2: "timers (step (PollDone 0 (PollOk (poll_resp ''processing'' 40))) ?w) = timers ?w"
    using tp [THEN conjunct2, THEN conjunct2, THEN conjunct2, THEN conjunct2, THEN conjunct1]
    by simp
  have 3: "polls (step (Tick 1) ?w) = polls ?w @ [(next_poll ?w, t_rid ?x)]"
    using td [THEN conjunct2, THEN conjunct2, THEN conjunct1] f by simp
  have 4: "timers ?w = [?x]" and 5: "polls ?w @ [(next_poll ?w, t_rid ?x)] = [(0, ''r1''), (1, ''r1'')]"
    unfolding w by simp_all
  let ?v = "run [Drop [photo_a], HandleUpload, UploadDone (XhrLoad 200 (Some job_j1)),
              HandleStartRender] (init None)"
  have sv: "map_of (starts ?v) 0 = Some ''j1''" and nv: "next_timer ?v = 1"
    by (simp_all add: eval_defs)
  have 6: "timers (step (StartRenderDone 0 (StartOk (started ''r1''))) ?v)
            = [\<lparr>t_id = next_timer ?v, t_ms = 500, t_rid = render_id (started ''r1'')\<rparr>]"
    using polling_cadence_and_stop [OF refl, where es = "[Drop [photo_a], HandleUpload,
        UploadDone (XhrLoad 200 (Some job_j1)), HandleStartRender]" and env = None and j = 0
        and jid = "''j1''" and r = "started ''r1''", THEN conjunct2, THEN conjunct1] sv
    by (rule mp)
  show ?thesis
    using 1 2 3 6 unfolding 4 5 nv by simp
qed

section \<open>Superseded renders\<close>




section \<open>Clearing and unmounting\<close>

text \<open>
  Claim C6.  The claim asks the clear action to cancel a running poll loop and teardown to
  leave no tick to fire.  A drop while the loop for \<^verbatim>\<open>r1\<close> runs resets the render status,
  which enables the "Clear all" button; \<^verbatim>\<open>clearAll\<close> then empties the staging set but
  leaves the interval registered, so its next firing issues a fetch and the answer puts the
  status \<^verbatim>\<open>processing\<close> back on the cleared page.  The unmount cleanup clears the
  interval that \<^verbatim>\<open>pollRef\<close> holds at that moment only: when the answer to a render start
  arrives after unmounting, it registers an interval that nothing clears, and that interval
  fires and fetches.
\<close>

theorem clearAll_keeps_poll_timer:
  "clear_enabled (ui (run (rendering_r1 @ [Drop [photo_b]]) (init None)))
   \<and> timers (run (rendering_r1 @ [Drop [photo_b], ClearAll]) (init None))
       = [\<lparr>t_id = 1, t_ms = 500, t_rid = ''r1''\<rparr>]
   \<and> polls (run (rendering_r1 @ [Drop [photo_b], ClearAll, Tick 1]) (init None)) = [(0, ''r1'')]
   \<and> renderStatus (ui (run (rendering_r1 @ [Drop [photo_b], ClearAll, Tick 1,
         PollDone 0 (PollOk (poll_resp ''processing'' 40))]) (init None))) = Some ''processing''
   \<and> files (ui (run (rendering_r1 @ [Drop [photo_b], ClearAll, Tick 1,
         PollDone 0 (PollOk (poll_resp ''processing'' 40))]) (init None))) = []
   \<and> mounted (run start_answer_after_unmount (init None)) = False
   \<and> timers (run start_answer_after_unmount (init None))
       = [\<lparr>t_id = 1, t_ms = 500, t_rid = ''r1''\<rparr>]
   \<and> polls (run (start_answer_after_unmount @ [Tick 1]) (init None)) = [(0, ''r1'')]"
  by (simp add: eval_defs clear_enabled_def)

section \<open>Removing a file after a job has completed\<close>

text \<open>
  Claim C3.  The claim asks \<^verbatim>\<open>removeFile\<close> to discard the results of earlier jobs, as
  \<^verbatim>\<open>onDrop\<close> does under the comment "reset prior results".  \<^verbatim>\<open>removeFile\<close> only filters
  \<^verbatim>\<open>files\<close>: after an upload and a finished render, removing the only staged photo leaves
  an empty staging set together with the job, the render id, the status \<^verbatim>\<open>done\<close> and the
  download location.  A drop in the same state discards the job.
\<close>

theorem removeFile_keeps_job_results:
  "files (ui (run (rendering_r1 @ [Tick 1, PollDone 0 (PollOk poll_done),
        RemoveFile ''a.png-3-7'']) (init None))) = []
   \<and> job (ui (run (rendering_r1 @ [Tick 1, PollDone 0 (PollOk poll_done),
        RemoveFile ''a.png-3-7'']) (init None))) = Some job_j1
   \<and> renderId (ui (run (rendering_r1 @ [Tick 1, PollDone 0 (PollOk poll_done),
        RemoveFile ''a.png-3-7'']) (init None))) = Some ''r1''
   \<and> renderStatus (ui (run (rendering_r1 @ [Tick 1, PollDone 0 (PollOk poll_done),
        RemoveFile ''a.png-3-7'']) (init None))) = Some ''done''
   \<and> downloadUrl (ui (run (rendering_r1 @ [Tick 1, PollDone 0 (PollOk poll_done),
        RemoveFile ''a.png-3-7'']) (init None))) = ''http://localhost:8000/dl/x.mp4''
   \<and> job (ui (run (rendering_r1 @ [Tick 1, PollDone 0 (PollOk poll_done), Drop [photo_b]])
        (init None))) = None"
  by (simp add: eval_defs)

end
